theory Spec2Isabelle
  imports Main
begin

section \<open>The configuration module astro.config.mjs\<close>

text \<open>
  The repository's only code is the module \<^verbatim>\<open>astro.config.mjs\<close>, whose default export
  is one expression: object, array, string and boolean literals, the imported identifier
  \<^verbatim>\<open>rehypeMermaid\<close>, and calls of the imported functions \<^verbatim>\<open>defineConfig\<close> and
  \<^verbatim>\<open>starlight\<close>. The expression is embedded as a value of the datatype below, property
  by property in the order of the source; comments of the source are not part of the value.
  An object literal is an association list, so that the order of its keys and a repeated
  key both stay visible.
\<close>

datatype js =
    JStr string
  | JBool bool
  | JIdent string
  | JArr "js list"
  | JObj "(string \<times> js) list"
  | JCall string "js list"

subsection \<open>First variant (lines 1 to 58)\<close>

definition config_v1 :: js where
  "config_v1 =
    JCall ''defineConfig'' [JObj [
      (''site'', JStr ''https://j-ochmann.github.io''),
      (''base'', JStr ''/astro''),
      (''markdown'', JObj [
        (''syntaxHighlight'', JObj [
          (''type'', JStr ''shiki''),
          (''excludeLangs'', JArr [JStr ''mermaid''])]),
        (''rehypePlugins'', JArr [
          JArr [JIdent ''rehypeMermaid'',
            JObj [
              (''mermaidConfig'', JObj [(''theme'', JStr ''default'')]),
              (''dark'', JBool False)]]])]),
      (''integrations'', JArr [
        JCall ''starlight'' [JObj [
          (''title'', JStr ''DevBook''),
          (''social'', JArr [
            JObj [(''icon'', JStr ''github''), (''label'', JStr ''GitHub''),
                  (''href'', JStr ''https://github.com/j-ochmann'')]]),
          (''sidebar'', JArr [
            JObj [
              (''label'', JStr ''Quick Reference''),
              (''autogenerate'', JObj [(''directory'', JStr ''quick_reference'')]),
              (''collapsed'', JBool True)],
            JObj [
              (''label'', JStr ''Design Patterns''),
              (''link'', JStr ''design_patterns''),
              (''collapsed'', JBool True),
              (''items'', JArr [
                JObj [(''label'', JStr ''Creational''), (''slug'', JStr ''design_patterns/creational'')],
                JObj [(''label'', JStr ''Structural''), (''slug'', JStr ''design_patterns/structural'')],
                JObj [(''label'', JStr ''Behavioral''), (''slug'', JStr ''design_patterns/behavioral'')]])],
            JObj [
              (''label'', JStr ''External Resources''),
              (''autogenerate'', JObj [(''directory'', JStr ''external'')]),
              (''collapsed'', JBool True)]])]]])]]"

subsection \<open>Second variant (lines 59 to 106)\<close>

definition config_v2 :: js where
  "config_v2 =
    JCall ''defineConfig'' [JObj [
      (''site'', JStr ''https://j-ochmann.github.io''),
      (''base'', JStr ''/astro''),
      (''markdown'', JObj [
        (''syntaxHighlight'', JObj [
          (''type'', JStr ''shiki''),
          (''excludeLangs'', JArr [JStr ''mermaid''])]),
        (''rehypePlugins'', JArr [
          JArr [JIdent ''rehypeMermaid'',
            JObj [
              (''mermaidConfig'', JObj [(''theme'', JStr ''default'')]),
              (''dark'', JBool False)]]])]),
      (''integrations'', JArr [
        JCall ''starlight'' [JObj [
          (''title'', JStr ''DevBook''),
          (''social'', JArr [
            JObj [(''icon'', JStr ''github''), (''label'', JStr ''GitHub''),
                  (''href'', JStr ''https://github.com/j-ochmann'')]]),
          (''sidebar'', JArr [
            JObj [
              (''label'', JStr ''Design Patterns''),
              (''autogenerate'', JObj [(''directory'', JStr ''design_patterns'')]),
              (''collapsed'', JBool True)]])]]])]]"

section \<open>Reading a configuration value\<close>

text \<open>
  \<open>field k v\<close> is the property read \<^verbatim>\<open>v.k\<close> on an object literal: the last binding of
  \<open>k\<close> wins, as in JavaScript, and a key that is absent (JavaScript's \<^verbatim>\<open>undefined\<close>) is
  \<open>None\<close>. It is \<open>None\<close> on every value that is not an object literal.
\<close>

fun field :: "string \<Rightarrow> js \<Rightarrow> js option" where
  "field k (JObj ps) = map_of (rev ps) k"
| "field k v = None"

fun keys :: "js \<Rightarrow> string list" where
  "keys (JObj ps) = map fst ps"
| "keys v = []"

fun elems :: "js \<Rightarrow> js list" where
  "elems (JArr xs) = xs"
| "elems v = []"

text \<open>The single argument of a call of the imported function \<open>f\<close>.\<close>

fun call_arg :: "string \<Rightarrow> js \<Rightarrow> js option" where
  "call_arg f (JCall g [a]) = (if f = g then Some a else None)"
| "call_arg f v = None"

text \<open>A chain of property reads \<^verbatim>\<open>v.k1.k2\<close>.\<close>

fun path :: "string list \<Rightarrow> js \<Rightarrow> js option" where
  "path [] v = Some v"
| "path (k # ks) v = (case field k v of None \<Rightarrow> None | Some w \<Rightarrow> path ks w)"

text \<open>The object literal handed to \<^verbatim>\<open>defineConfig\<close>.\<close>

definition config_object :: "js \<Rightarrow> js option" where
  "config_object c = call_arg ''defineConfig'' c"

definition config_path :: "string list \<Rightarrow> js \<Rightarrow> js option" where
  "config_path ks c = (case config_object c of None \<Rightarrow> None | Some v \<Rightarrow> path ks v)"

text \<open>The option objects of the \<^verbatim>\<open>starlight\<close> calls listed under \<^verbatim>\<open>integrations\<close>.\<close>

definition starlight_options :: "js \<Rightarrow> js list" where
  "starlight_options c =
     (case config_path [''integrations''] c of
        None \<Rightarrow> []
      | Some v \<Rightarrow> List.map_filter (call_arg ''starlight'') (elems v))"

text \<open>The top-level entries of the sidebar, in order.\<close>

definition sidebar_entries :: "js \<Rightarrow> js list" where
  "sidebar_entries c =
     concat (map (\<lambda>v. case field ''sidebar'' v of None \<Rightarrow> [] | Some s \<Rightarrow> elems s)
                 (starlight_options c))"

section \<open>Shapes of a sidebar entry\<close>

definition has :: "string \<Rightarrow> js \<Rightarrow> bool" where
  "has k e = (field k e \<noteq> None)"

fun str_of :: "js \<Rightarrow> string option" where
  "str_of (JStr s) = Some s"
| "str_of v = None"

fun bool_of :: "js \<Rightarrow> bool option" where
  "bool_of (JBool b) = Some b"
| "bool_of v = None"

text \<open>The key \<open>k\<close> is present and bound to a string literal.\<close>

definition text_field :: "string \<Rightarrow> js \<Rightarrow> bool" where
  "text_field k e = (case field k e of None \<Rightarrow> False | Some v \<Rightarrow> str_of v \<noteq> None)"

text \<open>
  The three shapes of an entry are told apart by the key that carries them:
  \<^verbatim>\<open>link\<close> or \<^verbatim>\<open>slug\<close> for an explicit link, \<^verbatim>\<open>items\<close> for a group of nested items,
  \<^verbatim>\<open>autogenerate\<close> for a directory-autogeneration directive.
\<close>

definition link_shape :: "js \<Rightarrow> bool" where
  "link_shape e = (has ''link'' e \<or> has ''slug'' e)"

definition group_shape :: "js \<Rightarrow> bool" where
  "group_shape e = has ''items'' e"

definition autogen_shape :: "js \<Rightarrow> bool" where
  "autogen_shape e = has ''autogenerate'' e"

definition shape_count :: "js \<Rightarrow> nat" where
  "shape_count e =
     (if link_shape e then 1 else 0) + (if group_shape e then 1 else 0)
       + (if autogen_shape e then 1 else 0)"

text \<open>
  What each part of an entry has to look like when it is present. The target of a link
  is a string under \<^verbatim>\<open>link\<close> or under \<^verbatim>\<open>slug\<close>, never under both.
\<close>

definition link_part_ok :: "js \<Rightarrow> bool" where
  "link_part_ok e =
     (case field ''link'' e of
        None \<Rightarrow> (case field ''slug'' e of None \<Rightarrow> True | Some w \<Rightarrow> str_of w \<noteq> None)
      | Some v \<Rightarrow> (case field ''slug'' e of None \<Rightarrow> str_of v \<noteq> None | Some w \<Rightarrow> False))"

text \<open>A nested item: a label with a slug or a link, and nothing else.\<close>

definition link_item :: "js \<Rightarrow> bool" where
  "link_item e =
     (text_field ''label'' e \<and> link_shape e \<and> link_part_ok e
      \<and> list_all (\<lambda>k. k \<in> set [''label'', ''slug'', ''link'']) (keys e))"

text \<open>
  The items of a group are an array literal, not empty, of nested (label, slug-or-link)
  items; a value under \<^verbatim>\<open>items\<close> that is not an array literal is no group.
\<close>

fun item_list :: "js \<Rightarrow> js list option" where
  "item_list (JArr xs) = Some xs"
| "item_list v = None"

definition group_part_ok :: "js \<Rightarrow> bool" where
  "group_part_ok e =
     (case field ''items'' e of
        None \<Rightarrow> True
      | Some v \<Rightarrow> (case item_list v of None \<Rightarrow> False | Some xs \<Rightarrow> xs \<noteq> [] \<and> list_all link_item xs))"

text \<open>
  A directive is an object whose only key \<^verbatim>\<open>directory\<close> is a string, and
  \<^verbatim>\<open>collapsed\<close> is a boolean.
\<close>

definition directive_part_ok :: "js \<Rightarrow> bool" where
  "directive_part_ok e =
     (case field ''autogenerate'' e of
        None \<Rightarrow> True
      | Some d \<Rightarrow> keys d = [''directory''] \<and> text_field ''directory'' d)"

definition collapsed_part_ok :: "js \<Rightarrow> bool" where
  "collapsed_part_ok e =
     (case field ''collapsed'' e of None \<Rightarrow> True | Some v \<Rightarrow> bool_of v \<noteq> None)"

text \<open>
  An entry carries a label, the keys of the three shapes, and beyond them only
  \<^verbatim>\<open>collapsed\<close>.
\<close>

definition entry_keys_ok :: "js \<Rightarrow> bool" where
  "entry_keys_ok e =
     (text_field ''label'' e
      \<and> list_all (\<lambda>k. k \<in> set [''label'', ''link'', ''slug'', ''items'', ''autogenerate'',
                                  ''collapsed'']) (keys e))"

definition entry_parts_ok :: "js \<Rightarrow> bool" where
  "entry_parts_ok e =
     (entry_keys_ok e \<and> link_part_ok e \<and> group_part_ok e \<and> directive_part_ok e
      \<and> collapsed_part_ok e)"

text \<open>An entry of exactly one shape.\<close>

definition single_shape :: "js \<Rightarrow> bool" where
  "single_shape e = (entry_parts_ok e \<and> shape_count e = 1)"

section \<open>Markdown settings and the diagram plugin\<close>

text \<open>The entries of \<^verbatim>\<open>markdown.rehypePlugins\<close>, in order.\<close>

definition rehype_plugins :: "js \<Rightarrow> js list" where
  "rehype_plugins c =
     (case config_path [''markdown'', ''rehypePlugins''] c of None \<Rightarrow> [] | Some v \<Rightarrow> elems v)"

text \<open>An entry is a pair: the identifier of an imported plugin and an options object.\<close>

fun plugin_pair :: "js \<Rightarrow> bool" where
  "plugin_pair (JArr [JIdent n, JObj ps]) = True"
| "plugin_pair v = False"

fun plugin_name :: "js \<Rightarrow> string option" where
  "plugin_name (JArr [JIdent n, opts]) = Some n"
| "plugin_name v = None"

fun options_of :: "string \<Rightarrow> js \<Rightarrow> js option" where
  "options_of n (JArr [JIdent m, opts]) = (if n = m then Some opts else None)"
| "options_of n v = None"

text \<open>The options objects handed to \<^verbatim>\<open>rehypeMermaid\<close>.\<close>

definition mermaid_options :: "js \<Rightarrow> js list" where
  "mermaid_options c = List.map_filter (options_of ''rehypeMermaid'') (rehype_plugins c)"

definition theme_of :: "js \<Rightarrow> string option" where
  "theme_of opts =
     (case path [''mermaidConfig'', ''theme''] opts of None \<Rightarrow> None | Some v \<Rightarrow> str_of v)"

definition dark_of :: "js \<Rightarrow> bool option" where
  "dark_of opts = (case field ''dark'' opts of None \<Rightarrow> None | Some v \<Rightarrow> bool_of v)"

text \<open>The theme name of an options object is one of the names of the enumeration \<open>names\<close>.\<close>

definition theme_in :: "string list \<Rightarrow> js \<Rightarrow> bool" where
  "theme_in names opts = (case theme_of opts of None \<Rightarrow> False | Some t \<Rightarrow> t \<in> set names)"

text \<open>
  A value built from literals only: no call and no identifier occurs in it, so the module
  computes nothing from it and hands it on as written.
\<close>

fun is_literal :: "js \<Rightarrow> bool" where
  "is_literal (JStr s) = True"
| "is_literal (JBool b) = True"
| "is_literal (JIdent x) = False"
| "is_literal (JArr xs) = list_all is_literal xs"
| "is_literal (JObj ps) = list_all (\<lambda>p. is_literal (snd p)) ps"
| "is_literal (JCall f as) = False"

text \<open>The settings object \<^verbatim>\<open>markdown.syntaxHighlight\<close> and the tags of its exclusion list.\<close>

definition highlight_settings :: "js \<Rightarrow> js option" where
  "highlight_settings c = config_path [''markdown'', ''syntaxHighlight''] c"

definition exclude_langs :: "js \<Rightarrow> string list" where
  "exclude_langs s =
     (case field ''excludeLangs'' s of None \<Rightarrow> [] | Some v \<Rightarrow> List.map_filter str_of (elems v))"

text \<open>
  Modelled from the spec: the syntax highlighter, which is code of the external site
  generator and is missing from the repository. Section 6 of the specification gives
  \<^verbatim>\<open>markdown.syntaxHighlight.type\<close> as the key that selects the highlighting engine and
  \<^verbatim>\<open>markdown.syntaxHighlight.excludeLangs\<close> as the language tags skipped by the
  highlighter. So a code block whose language tag is on the exclusion list of the settings
  is skipped, and every other block is highlighted by the selected engine; where the
  settings select no engine the specification says nothing, and the result is \<open>None\<close>.
\<close>

datatype rendering = Skipped string | Highlighted string string

definition engine_of :: "js \<Rightarrow> string option" where
  "engine_of s = (case field ''type'' s of None \<Rightarrow> None | Some v \<Rightarrow> str_of v)"

definition highlight :: "js \<Rightarrow> string \<Rightarrow> rendering option" where
  "highlight s l =
     (if l \<in> set (exclude_langs s) then Some (Skipped l)
      else (case engine_of s of None \<Rightarrow> None | Some e \<Rightarrow> Some (Highlighted e l)))"

section \<open>Comparing the variants\<close>

text \<open>Both configurations have the value at the chain of keys \<open>ks\<close>, and it is the same.\<close>

definition same_at :: "string list \<Rightarrow> js \<Rightarrow> js \<Rightarrow> bool" where
  "same_at ks c d =
     (case config_path ks c of None \<Rightarrow> False | Some v \<Rightarrow> config_path ks d = Some v)"

definition starlight_field :: "string \<Rightarrow> js \<Rightarrow> js option list" where
  "starlight_field k c = map (field k) (starlight_options c)"

text \<open>
  The configuration with the key \<^verbatim>\<open>sidebar\<close> taken out of the options of every
  \<^verbatim>\<open>starlight\<close> call under \<^verbatim>\<open>integrations\<close>; everything else stays as written.
\<close>

fun drop_key :: "string \<Rightarrow> js \<Rightarrow> js" where
  "drop_key k (JObj ps) = JObj (filter (\<lambda>p. fst p \<noteq> k) ps)"
| "drop_key k v = v"

fun map_field :: "string \<Rightarrow> (js \<Rightarrow> js) \<Rightarrow> js \<Rightarrow> js" where
  "map_field k f (JObj ps) = JObj (map (\<lambda>p. if fst p = k then (fst p, f (snd p)) else p) ps)"
| "map_field k f v = v"

fun map_elems :: "(js \<Rightarrow> js) \<Rightarrow> js \<Rightarrow> js" where
  "map_elems f (JArr xs) = JArr (map f xs)"
| "map_elems f v = v"

fun map_call :: "string \<Rightarrow> (js \<Rightarrow> js) \<Rightarrow> js \<Rightarrow> js" where
  "map_call g f (JCall h as) = (if g = h then JCall h (map f as) else JCall h as)"
| "map_call g f v = v"

definition without_sidebar :: "js \<Rightarrow> js" where
  "without_sidebar c =
     map_call ''defineConfig''
       (map_field ''integrations'' (map_elems (map_call ''starlight'' (drop_key ''sidebar'')))) c"

section \<open>Evaluation of the two variants\<close>

lemma starlight_options_v1:
  "starlight_options config_v1 = [JObj [
          (''title'', JStr ''DevBook''),
          (''social'', JArr [
            JObj [(''icon'', JStr ''github''), (''label'', JStr ''GitHub''),
                  (''href'', JStr ''https://github.com/j-ochmann'')]]),
          (''sidebar'', JArr [
            JObj [
              (''label'', JStr ''Quick Reference''),
              (''autogenerate'', JObj [(''directory'', JStr ''quick_reference'')]),
              (''collapsed'', JBool True)],
            JObj [
              (''label'', JStr ''Design Patterns''),
              (''link'', JStr ''design_patterns''),
              (''collapsed'', JBool True),
              (''items'', JArr [
                JObj [(''label'', JStr ''Creational''), (''slug'', JStr ''design_patterns/creational'')],
                JObj [(''label'', JStr ''Structural''), (''slug'', JStr ''design_patterns/structural'')],
                JObj [(''label'', JStr ''Behavioral''), (''slug'', JStr ''design_patterns/behavioral'')]])],
            JObj [
              (''label'', JStr ''External Resources''),
              (''autogenerate'', JObj [(''directory'', JStr ''external'')]),
              (''collapsed'', JBool True)]])]]"
  by (simp add: starlight_options_def config_path_def config_object_def config_v1_def)

lemma starlight_options_v2:
  "starlight_options config_v2 = [JObj [
          (''title'', JStr ''DevBook''),
          (''social'', JArr [
            JObj [(''icon'', JStr ''github''), (''label'', JStr ''GitHub''),
                  (''href'', JStr ''https://github.com/j-ochmann'')]]),
          (''sidebar'', JArr [
            JObj [
              (''label'', JStr ''Design Patterns''),
              (''autogenerate'', JObj [(''directory'', JStr ''design_patterns'')]),
              (''collapsed'', JBool True)]])]]"
  by (simp add: starlight_options_def config_path_def config_object_def config_v2_def)

lemma sidebar_entries_v1:
  "sidebar_entries config_v1 =
     [JObj [
        (''label'', JStr ''Quick Reference''),
        (''autogenerate'', JObj [(''directory'', JStr ''quick_reference'')]),
        (''collapsed'', JBool True)],
      JObj [
        (''label'', JStr ''Design Patterns''),
        (''link'', JStr ''design_patterns''),
        (''collapsed'', JBool True),
        (''items'', JArr [
          JObj [(''label'', JStr ''Creational''), (''slug'', JStr ''design_patterns/creational'')],
          JObj [(''label'', JStr ''Structural''), (''slug'', JStr ''design_patterns/structural'')],
          JObj [(''label'', JStr ''Behavioral''), (''slug'', JStr ''design_patterns/behavioral'')]])],
      JObj [
        (''label'', JStr ''External Resources''),
        (''autogenerate'', JObj [(''directory'', JStr ''external'')]),
        (''collapsed'', JBool True)]]"
  by (simp add: sidebar_entries_def starlight_options_v1)

lemma sidebar_entries_v2:
  "sidebar_entries config_v2 =
     [JObj [
        (''label'', JStr ''Design Patterns''),
        (''autogenerate'', JObj [(''directory'', JStr ''design_patterns'')]),
        (''collapsed'', JBool True)]]"
  by (simp add: sidebar_entries_def starlight_options_v2)

lemma rehype_plugins_v1:
  "rehype_plugins config_v1 =
     [JArr [JIdent ''rehypeMermaid'',
        JObj [(''mermaidConfig'', JObj [(''theme'', JStr ''default'')]),
              (''dark'', JBool False)]]]"
  by (simp add: rehype_plugins_def config_path_def config_object_def config_v1_def)

lemma rehype_plugins_v2:
  "rehype_plugins config_v2 =
     [JArr [JIdent ''rehypeMermaid'',
        JObj [(''mermaidConfig'', JObj [(''theme'', JStr ''default'')]),
              (''dark'', JBool False)]]]"
  by (simp add: rehype_plugins_def config_path_def config_object_def config_v2_def)

lemma highlight_settings_v1:
  "highlight_settings config_v1 =
     Some (JObj [(''type'', JStr ''shiki''), (''excludeLangs'', JArr [JStr ''mermaid''])])"
  by (simp add: highlight_settings_def config_path_def config_object_def config_v1_def)

lemma highlight_settings_v2:
  "highlight_settings config_v2 =
     Some (JObj [(''type'', JStr ''shiki''), (''excludeLangs'', JArr [JStr ''mermaid''])])"
  by (simp add: highlight_settings_def config_path_def config_object_def config_v2_def)

lemmas shape_defs =
  single_shape_def entry_parts_ok_def entry_keys_ok_def link_part_ok_def
  group_part_ok_def directive_part_ok_def collapsed_part_ok_def shape_count_def
  link_shape_def group_shape_def autogen_shape_def link_item_def text_field_def has_def

section \<open>Shapes of the sidebar entries\<close>

text \<open>
  C1: every entry of the sidebar is of exactly one shape (explicit link, group of nested
  items, autogeneration directive) and carries beyond it only \<^verbatim>\<open>collapsed\<close>. The
  configuration breaks this at one entry. The second entry of the first variant,
  \<^verbatim>\<open>Design Patterns\<close>, is written with a \<^verbatim>\<open>link\<close> and with \<^verbatim>\<open>items\<close>: each of its
  parts is well formed, but it has two shapes, so it is not an entry of a single shape.
  The other two entries of that sidebar, its three nested items, and the entry of the
  second variant, which declares the same section by a directive alone, have one shape.
\<close>

theorem design_patterns_entry_two_shapes:
  "sidebar_entries config_v1 ! 1 =
     JObj [
       (''label'', JStr ''Design Patterns''),
       (''link'', JStr ''design_patterns''),
       (''collapsed'', JBool True),
       (''items'', JArr [
         JObj [(''label'', JStr ''Creational''), (''slug'', JStr ''design_patterns/creational'')],
         JObj [(''label'', JStr ''Structural''), (''slug'', JStr ''design_patterns/structural'')],
         JObj [(''label'', JStr ''Behavioral''), (''slug'', JStr ''design_patterns/behavioral'')]])]
   \<and> link_shape (sidebar_entries config_v1 ! 1) \<and> group_shape (sidebar_entries config_v1 ! 1)
   \<and> shape_count (sidebar_entries config_v1 ! 1) = 2
   \<and> entry_parts_ok (sidebar_entries config_v1 ! 1)
   \<and> single_shape (sidebar_entries config_v1 ! 1) = False
   \<and> length (sidebar_entries config_v1) = 3
   \<and> single_shape (sidebar_entries config_v1 ! 0)
   \<and> single_shape (sidebar_entries config_v1 ! 2)
   \<and> length (sidebar_entries config_v2) = 1
   \<and> single_shape (sidebar_entries config_v2 ! 0)
   \<and> field ''label'' (sidebar_entries config_v2 ! 0) = Some (JStr ''Design Patterns'')
   \<and> shape_count (sidebar_entries config_v2 ! 0) = 1
   \<and> autogen_shape (sidebar_entries config_v2 ! 0)"
proof -
  have e1: "sidebar_entries config_v1 ! 1 =
     JObj [
       (''label'', JStr ''Design Patterns''),
       (''link'', JStr ''design_patterns''),
       (''collapsed'', JBool True),
       (''items'', JArr [
         JObj [(''label'', JStr ''Creational''), (''slug'', JStr ''design_patterns/creational'')],
         JObj [(''label'', JStr ''Structural''), (''slug'', JStr ''design_patterns/structural'')],
         JObj [(''label'', JStr ''Behavioral''), (''slug'', JStr ''design_patterns/behavioral'')]])]"
    by (simp add: sidebar_entries_v1)
  have two: "link_shape (sidebar_entries config_v1 ! 1)"
      "group_shape (sidebar_entries config_v1 ! 1)"
      "shape_count (sidebar_entries config_v1 ! 1) = 2"
    by (simp_all add: sidebar_entries_v1 shape_count_def link_shape_def group_shape_def
                      autogen_shape_def has_def)
  have parts: "entry_parts_ok (sidebar_entries config_v1 ! 1)"
    by (simp add: sidebar_entries_v1 shape_defs)
  have not_single: "single_shape (sidebar_entries config_v1 ! 1) = False"
    using two(3) by (simp add: single_shape_def)
  have others: "length (sidebar_entries config_v1) = 3"
      "single_shape (sidebar_entries config_v1 ! 0)"
      "single_shape (sidebar_entries config_v1 ! 2)"
    by (simp_all add: sidebar_entries_v1 shape_defs)
  have sibling: "length (sidebar_entries config_v2) = 1"
      "single_shape (sidebar_entries config_v2 ! 0)"
      "field ''label'' (sidebar_entries config_v2 ! 0) = Some (JStr ''Design Patterns'')"
      "shape_count (sidebar_entries config_v2 ! 0) = 1"
      "autogen_shape (sidebar_entries config_v2 ! 0)"
    by (simp_all add: sidebar_entries_v2 shape_defs)
  from e1 two parts not_single others sibling show ?thesis by blast
qed

section \<open>Collapsed sections\<close>

text \<open>
  C10: both variants declare sidebar entries, and every top-level entry of either variant
  carries \<^verbatim>\<open>collapsed: true\<close>.
\<close>

theorem sidebar_all_collapsed:
  "sidebar_entries config_v1 \<noteq> [] \<and> sidebar_entries config_v2 \<noteq> []
   \<and> (\<forall>e \<in> set (sidebar_entries config_v1) \<union> set (sidebar_entries config_v2).
         field ''collapsed'' e = Some (JBool True))"
  by (simp add: sidebar_entries_v1 sidebar_entries_v2)

theorem sidebar_all_collapsed_witness:
  "sidebar_entries config_v2 ! 0 \<in> set (sidebar_entries config_v1) \<union> set (sidebar_entries config_v2)
   \<and> field ''collapsed'' (sidebar_entries config_v2 ! 0) = Some (JBool True)"
proof -
  have m: "sidebar_entries config_v2 ! 0
             \<in> set (sidebar_entries config_v1) \<union> set (sidebar_entries config_v2)"
    by (simp add: sidebar_entries_v2)
  have "\<forall>e \<in> set (sidebar_entries config_v1) \<union> set (sidebar_entries config_v2).
          field ''collapsed'' e = Some (JBool True)"
    using sidebar_all_collapsed by blast
  then have "field ''collapsed'' (sidebar_entries config_v2 ! 0) = Some (JBool True)"
    using m by (rule bspec)
  with m show ?thesis by blast
qed

lemmas config_eval = config_path_def config_object_def config_v1_def config_v2_def

lemma mermaid_options_eq:
  assumes "c = config_v1 \<or> c = config_v2"
  shows "mermaid_options c =
     [JObj [(''mermaidConfig'', JObj [(''theme'', JStr ''default'')]), (''dark'', JBool False)]]"
  using assms by (auto simp add: mermaid_options_def rehype_plugins_v1 rehype_plugins_v2 List.map_filter_simps)

section \<open>The two variants\<close>

text \<open>
  C9: the two variants of the configuration have the same site URL, the same base path,
  the same markdown settings (highlighter, exclusion list, rehype plugin pipeline with its
  options), the same theme title and the same social links; with the sidebar taken out
  they are the same value, and their sidebars differ.
\<close>

theorem variants_agree_outside_sidebar:
  "same_at [''site''] config_v1 config_v2
   \<and> same_at [''base''] config_v1 config_v2
   \<and> same_at [''markdown''] config_v1 config_v2
   \<and> same_at [''markdown'', ''syntaxHighlight'', ''type''] config_v1 config_v2
   \<and> same_at [''markdown'', ''syntaxHighlight'', ''excludeLangs''] config_v1 config_v2
   \<and> same_at [''markdown'', ''rehypePlugins''] config_v1 config_v2
   \<and> starlight_field ''title'' config_v1 = [Some (JStr ''DevBook'')]
   \<and> starlight_field ''title'' config_v2 = [Some (JStr ''DevBook'')]
   \<and> starlight_field ''social'' config_v1 =
        [Some (JArr [JObj [(''icon'', JStr ''github''), (''label'', JStr ''GitHub''),
                           (''href'', JStr ''https://github.com/j-ochmann'')]])]
   \<and> starlight_field ''social'' config_v2 = starlight_field ''social'' config_v1
   \<and> without_sidebar config_v1 = without_sidebar config_v2
   \<and> sidebar_entries config_v1 \<noteq> sidebar_entries config_v2"
proof -
  have a: "same_at [''site''] config_v1 config_v2" "same_at [''base''] config_v1 config_v2"
      "same_at [''markdown''] config_v1 config_v2"
      "same_at [''markdown'', ''syntaxHighlight'', ''type''] config_v1 config_v2"
      "same_at [''markdown'', ''syntaxHighlight'', ''excludeLangs''] config_v1 config_v2"
      "same_at [''markdown'', ''rehypePlugins''] config_v1 config_v2"
    by (simp_all add: same_at_def config_eval)
  have b: "starlight_field ''title'' config_v1 = [Some (JStr ''DevBook'')]"
      "starlight_field ''title'' config_v2 = [Some (JStr ''DevBook'')]"
      "starlight_field ''social'' config_v1 =
        [Some (JArr [JObj [(''icon'', JStr ''github''), (''label'', JStr ''GitHub''),
                           (''href'', JStr ''https://github.com/j-ochmann'')]])]"
      "starlight_field ''social'' config_v2 = starlight_field ''social'' config_v1"
    by (simp_all add: starlight_field_def starlight_options_v1 starlight_options_v2)
  have c: "without_sidebar config_v1 = without_sidebar config_v2"
    by (simp add: without_sidebar_def config_v1_def config_v2_def)
  have d: "sidebar_entries config_v1 \<noteq> sidebar_entries config_v2"
    by (simp add: sidebar_entries_v1 sidebar_entries_v2)
  from a b c d show ?thesis by blast
qed

section \<open>Options of the diagram plugin\<close>

text \<open>
  C5: in either variant the rehype pipeline pairs \<^verbatim>\<open>rehypeMermaid\<close> with one options
  object; its theme name is the string \<^verbatim>\<open>default\<close>, which is a name of every enumeration
  of supported themes \<open>names\<close> that lists \<^verbatim>\<open>default\<close>; its \<^verbatim>\<open>dark\<close> flag is the boolean
  \<^verbatim>\<open>false\<close>; and the object is built from literals only, so the module hands it to the
  plugin as written. The enumeration belongs to the plugin and is a parameter here.
\<close>

theorem diagram_plugin_options:
  assumes "''default'' \<in> set names" and "c = config_v1 \<or> c = config_v2"
  shows "map (\<lambda>opts. JArr [JIdent ''rehypeMermaid'', opts]) (mermaid_options c) = rehype_plugins c
     \<and> map theme_of (mermaid_options c) = [Some ''default'']
     \<and> list_all (theme_in names) (mermaid_options c)
     \<and> map dark_of (mermaid_options c) = [Some False]
     \<and> list_all is_literal (mermaid_options c)"
proof -
  have p: "rehype_plugins c = [JArr [JIdent ''rehypeMermaid'',
        JObj [(''mermaidConfig'', JObj [(''theme'', JStr ''default'')]), (''dark'', JBool False)]]]"
    using assms(2) rehype_plugins_v1 rehype_plugins_v2 by blast
  show ?thesis
    using assms(1) by (simp add: mermaid_options_eq [OF assms(2)] p theme_of_def theme_in_def dark_of_def)
qed

theorem diagram_plugin_options_witness:
  "''default'' \<in> set [''default'', ''base'', ''dark'', ''forest'', ''neutral'']
   \<and> map theme_of (mermaid_options config_v1) = [Some ''default'']
   \<and> list_all (theme_in [''default'', ''base'', ''dark'', ''forest'', ''neutral''])
        (mermaid_options config_v1)
   \<and> map dark_of (mermaid_options config_v1) = [Some False]
   \<and> list_all is_literal (mermaid_options config_v1)"
proof -
  have h: "''default'' \<in> set [''default'', ''base'', ''dark'', ''forest'', ''neutral'']"
    by simp
  have v: "config_v1 = config_v1 \<or> config_v1 = config_v2"
    by simp
  from diagram_plugin_options [OF h v] h show ?thesis by blast
qed

section \<open>Markdown settings\<close>

text \<open>
  C6: in either variant the markdown settings select the highlighting engine
  \<^verbatim>\<open>shiki\<close>, the set of excluded language tags is exactly \<^verbatim>\<open>mermaid\<close>, and the rehype
  pipeline is a sequence of one entry, a pair of the plugin identifier
  \<^verbatim>\<open>rehypeMermaid\<close> and an options object. Under these settings the highlighter skips
  every tag of the exclusion set; it skips \<^verbatim>\<open>mermaid\<close> and nothing else, every other tag
  being highlighted by \<^verbatim>\<open>shiki\<close>.
\<close>

theorem markdown_settings:
  assumes "c = config_v1 \<or> c = config_v2"
  shows "config_path [''markdown'', ''syntaxHighlight'', ''type''] c = Some (JStr ''shiki'')
     \<and> (case highlight_settings c of
          None \<Rightarrow> False
        | Some s \<Rightarrow>
            engine_of s = Some ''shiki''
            \<and> set (exclude_langs s) = {''mermaid''}
            \<and> (\<forall>l \<in> set (exclude_langs s). highlight s l = Some (Skipped l))
            \<and> (\<forall>l. highlight s l =
                  (if l = ''mermaid'' then Some (Skipped l) else Some (Highlighted ''shiki'' l))))
     \<and> length (rehype_plugins c) = 1
     \<and> list_all plugin_pair (rehype_plugins c)
     \<and> map plugin_name (rehype_plugins c) = [Some ''rehypeMermaid'']"
proof -
  let ?s = "JObj [(''type'', JStr ''shiki''), (''excludeLangs'', JArr [JStr ''mermaid''])]"
  have t: "config_path [''markdown'', ''syntaxHighlight'', ''type''] c = Some (JStr ''shiki'')"
    using assms by (auto simp add: config_eval)
  have s: "highlight_settings c = Some ?s"
    using assms highlight_settings_v1 highlight_settings_v2 by blast
  have p: "rehype_plugins c = [JArr [JIdent ''rehypeMermaid'',
        JObj [(''mermaidConfig'', JObj [(''theme'', JStr ''default'')]), (''dark'', JBool False)]]]"
    using assms rehype_plugins_v1 rehype_plugins_v2 by blast
  have e: "exclude_langs ?s = [''mermaid'']"
    by (simp add: exclude_langs_def)
  have g: "engine_of ?s = Some ''shiki''"
    by (simp add: engine_of_def)
  have h: "highlight ?s l =
             (if l = ''mermaid'' then Some (Skipped l) else Some (Highlighted ''shiki'' l))" for l
    by (simp add: highlight_def e g)
  have k: "\<forall>l \<in> set (exclude_langs ?s). highlight ?s l = Some (Skipped l)"
    by (simp add: e h)
  show ?thesis using t g h k by (simp add: s p e)
qed

theorem markdown_settings_witness:
  "config_path [''markdown'', ''syntaxHighlight'', ''type''] config_v1 = Some (JStr ''shiki'')
   \<and> map_option (\<lambda>s. set (exclude_langs s)) (highlight_settings config_v1) = Some {''mermaid''}
   \<and> map_option (\<lambda>s. highlight s ''mermaid'') (highlight_settings config_v1)
       = Some (Some (Skipped ''mermaid''))
   \<and> map_option (\<lambda>s. highlight s ''python'') (highlight_settings config_v1)
       = Some (Some (Highlighted ''shiki'' ''python''))
   \<and> list_all plugin_pair (rehype_plugins config_v1)"
proof -
  have v: "config_v1 = config_v1 \<or> config_v1 = config_v2"
    by simp
  from markdown_settings [OF v]
  show ?thesis by (auto split: option.splits)
qed

end
